theory Spec2Isabelle
  imports Complex_Main
begin

section \<open>Data model of the measurement session\<close>

text \<open>
  The component \<^verbatim>\<open>ARMeasurement\<close> keeps one React state variable per concern and
  changes them in event handlers. The embedding collects the variables that the
  handlers read and write in one record and turns every handler into a function
  from the state before the event to the state after it.

  JavaScript numbers are modelled as real numbers: arithmetic is exact, and
  \<^verbatim>\<open>NaN\<close>, the infinities and the rounding of IEEE doubles are outside the model.
  A handler is applied to the state of the render that created it, so the
  \<^verbatim>\<open>prev\<close> of a functional update and the variable captured by the closure are
  the same value.
\<close>

record point =
  x :: real
  y :: real

record viewport =
  w :: real
  h :: real

text \<open>The size that \<^verbatim>\<open>containerRef.current.getBoundingClientRect()\<close> reports.\<close>

record domRect =
  width :: real
  height :: real

record session =
  points :: "point list"
  isClosed :: bool
  isCalibrating :: bool
  calibrationPoints :: "point list"
  pixelsPerFoot :: real
  showCalibrationModal :: bool
  viewport :: viewport

text \<open>The initial values given to \<^verbatim>\<open>useState\<close>.\<close>

definition initialSession :: session where
  "initialSession =
     \<lparr>points = [], isClosed = False, isCalibrating = False, calibrationPoints = [],
      pixelsPerFoot = 35, showCalibrationModal = False, viewport = \<lparr>w = 0, h = 0\<rparr>\<rparr>"

datatype js_error = TypeError

section \<open>Distances\<close>

definition calculatePixelDistance :: "point \<Rightarrow> point \<Rightarrow> real" where
  "calculatePixelDistance p1 p2 =
     (let dx = x p1 - x p2; dy = y p1 - y p2 in sqrt (dx * dx + dy * dy))"

text \<open>
  Reading an array beyond its length yields \<^verbatim>\<open>undefined\<close>, and reading the
  property \<^verbatim>\<open>x\<close> of \<^verbatim>\<open>undefined\<close> throws a \<^verbatim>\<open>TypeError\<close>.
\<close>

definition jsIndex :: "'a list \<Rightarrow> nat \<Rightarrow> 'a option" where
  "jsIndex xs i = (if i < length xs then Some (xs ! i) else None)"

definition calculatePixelDistanceJs :: "point option \<Rightarrow> point option \<Rightarrow> js_error + real" where
  "calculatePixelDistanceJs p1 p2 =
     (case p1 of
        None \<Rightarrow> Inl TypeError
      | Some a \<Rightarrow> (case p2 of None \<Rightarrow> Inl TypeError | Some b \<Rightarrow> Inr (calculatePixelDistance a b)))"

section \<open>Capture state machine\<close>

text \<open>
  \<^verbatim>\<open>handleCapturePoint\<close>: the target is the centre of the container; without a
  container the handler returns at once. In calibration mode the target becomes a
  reference point, and the second one opens the distance dialog. On a closed
  polygon nothing happens. Otherwise the functional update of \<^verbatim>\<open>points\<close> either
  closes the polygon or appends the target, and the check after it sets
  \<^verbatim>\<open>isClosed\<close> once more under the same condition.
\<close>

definition handleCapturePoint :: "domRect option \<Rightarrow> session \<Rightarrow> session" where
  "handleCapturePoint container s =
     (case container of
        None \<Rightarrow> s
      | Some r \<Rightarrow>
          (let target = \<lparr>x = width r / 2, y = height r / 2\<rparr> in
           if isCalibrating s then
             (let newPts = calibrationPoints s @ [target] in
              s\<lparr>calibrationPoints := newPts,
                showCalibrationModal :=
                  (if length newPts = 2 then True else showCalibrationModal s)\<rparr>)
           else if isClosed s then s
           else
             (let prev = points s;
                  s1 = (if length prev \<ge> 3 then
                          (let firstPoint = prev ! 0;
                               distToStart = sqrt ((x target - x firstPoint)\<^sup>2
                                                   + (y target - y firstPoint)\<^sup>2)
                           in if distToStart < 30 then s\<lparr>isClosed := True\<rparr>
                              else s\<lparr>points := prev @ [target]\<rparr>)
                        else s\<lparr>points := prev @ [target]\<rparr>)
              in if length (points s) \<ge> 3 then
                   (let dist = calculatePixelDistance target (points s ! 0)
                    in if dist < 30 then s1\<lparr>isClosed := True\<rparr> else s1)
                 else s1)))"

text \<open>
  \<^verbatim>\<open>handleUndo\<close>: \<^verbatim>\<open>prev.slice(0, -1)\<close> keeps the first \<^verbatim>\<open>length - 1\<close> elements
  and the empty array stays empty, as the truncating subtraction on \<open>nat\<close> does.
\<close>

definition handleUndo :: "session \<Rightarrow> session" where
  "handleUndo s =
     (if isClosed s then s\<lparr>isClosed := False\<rparr>
      else s\<lparr>points := take (length (points s) - 1) (points s)\<rparr>)"

text \<open>The button \<^verbatim>\<open>Scale\<close>: \<^verbatim>\<open>setIsCalibrating(!isCalibrating)\<close>.\<close>

definition toggleCalibration :: "session \<Rightarrow> session" where
  "toggleCalibration s = s\<lparr>isCalibrating := \<not> isCalibrating s\<rparr>"

text \<open>
  \<^verbatim>\<open>handleFinishCalibration\<close>; \<open>distFt\<close> is the number parsed from the text of
  the dialog.
\<close>

definition handleFinishCalibration :: "real \<Rightarrow> session \<Rightarrow> js_error + session" where
  "handleFinishCalibration distFt s =
     (case calculatePixelDistanceJs (jsIndex (calibrationPoints s) 0)
                                    (jsIndex (calibrationPoints s) 1) of
        Inl e \<Rightarrow> Inl e
      | Inr distPx \<Rightarrow>
          if distFt > 0 \<and> distPx > 0 then
            Inr (s\<lparr>pixelsPerFoot := distPx / distFt,
                   isCalibrating := False,
                   calibrationPoints := [],
                   showCalibrationModal := False,
                   points := [],
                   isClosed := False\<rparr>)
          else Inr s)"

text \<open>
  The dialog with the button that calls \<^verbatim>\<open>handleFinishCalibration\<close> is rendered
  only while \<^verbatim>\<open>showCalibrationModal\<close> is set; without the dialog there is nothing
  to press and the session stays as it is.
\<close>

definition finishCalibration :: "real \<Rightarrow> session \<Rightarrow> js_error + session" where
  "finishCalibration distFt s =
     (if showCalibrationModal s then handleFinishCalibration distFt s else Inr s)"

text \<open>\<^verbatim>\<open>updateSize\<close>, on mount and on every resize of the window.\<close>

definition updateSize :: "domRect option \<Rightarrow> session \<Rightarrow> session" where
  "updateSize container s =
     (case container of
        None \<Rightarrow> s
      | Some r \<Rightarrow> s\<lparr>viewport := \<lparr>w = width r, h = height r\<rparr>\<rparr>)"

subsection \<open>Sessions that the handlers can produce\<close>

text \<open>
  The events that change the session, in any order and with any container size:
  a capture (by tap or by the detector), undo, the button \<^verbatim>\<open>Scale\<close>, a resize and
  the button of the calibration dialog. A handler that throws leaves the state
  of the component as it was.
\<close>

datatype event =
    Capture "domRect option"
  | Undo
  | ToggleCalibration
  | Resize "domRect option"
  | FinishCalibration real

fun step :: "event \<Rightarrow> session \<Rightarrow> session" where
  "step (Capture container) s = handleCapturePoint container s"
| "step Undo s = handleUndo s"
| "step ToggleCalibration s = toggleCalibration s"
| "step (Resize container) s = updateSize container s"
| "step (FinishCalibration distFt) s =
     (case finishCalibration distFt s of Inl e \<Rightarrow> s | Inr s' \<Rightarrow> s')"



section \<open>Polygon geometry\<close>

record measurement =
  area :: real
  perimeter :: real

text \<open>The reticle \<^verbatim>\<open>{ x: viewport.w / 2, y: viewport.h / 2 }\<close>.\<close>

definition center :: "viewport \<Rightarrow> point" where
  "center v = \<lparr>x = w v / 2, y = h v / 2\<rparr>"

text \<open>
  The two loops of \<^verbatim>\<open>stats\<close>, each a fold over the indices
  \<open>0, \<dots>, limit - 1\<close> with the accumulator starting at 0.
\<close>

definition perimeterLoop :: "point list \<Rightarrow> nat \<Rightarrow> real" where
  "perimeterLoop ps loopLimit =
     fold (\<lambda>i perimeterPx.
             perimeterPx + calculatePixelDistance (ps ! i) (ps ! ((i + 1) mod length ps)))
          [0..<loopLimit] 0"

definition shoelaceLoop :: "point list \<Rightarrow> real" where
  "shoelaceLoop polygonPoints =
     fold (\<lambda>i areaPx.
             (let j = (i + 1) mod length polygonPoints
              in (areaPx + x (polygonPoints ! i) * y (polygonPoints ! j))
                 - x (polygonPoints ! j) * y (polygonPoints ! i)))
          [0..<length polygonPoints] 0"

text \<open>
  \<^verbatim>\<open>stats\<close>: with fewer than two vertices the result is zero at once. Otherwise
  the perimeter loop runs over all vertices when closed and over all but the last
  when open, the live line to the reticle is added when open, the shoelace loop
  runs over the vertices (with the reticle appended when open) if these are at
  least three, and both values are converted with the scale.
\<close>

definition stats :: "session \<Rightarrow> measurement" where
  "stats s =
     (if length (points s) < 2 then \<lparr>area = 0, perimeter = 0\<rparr>
      else
        (let loopLimit = (if isClosed s then length (points s) else length (points s) - 1);
             perimeterPx0 = perimeterLoop (points s) loopLimit;
             perimeterPx =
               (if \<not> isClosed s \<and> length (points s) > 0
                then perimeterPx0
                     + calculatePixelDistance (points s ! (length (points s) - 1))
                         (center (viewport s))
                else perimeterPx0);
             polygonPoints =
               (if isClosed s then points s else points s @ [center (viewport s)]);
             areaPx =
               (if length polygonPoints \<ge> 3 then abs (shoelaceLoop polygonPoints) / 2 else 0);
             areaFt = areaPx / (pixelsPerFoot s * pixelsPerFoot s);
             perimeterFt = perimeterPx / pixelsPerFoot s
         in \<lparr>area = areaFt, perimeter = perimeterFt\<rparr>))"

text \<open>
  \<^verbatim>\<open>v.toFixed(2)\<close> read back by \<^verbatim>\<open>parseFloat\<close>: the nearest multiple of
  \<open>1/100\<close>, the larger one on a tie, computed on the absolute value. The model
  rounds the exact real; the code rounds the double nearest to it, which can lie
  on the other side of a tie (the double for \<open>1.005\<close> is below it and gives
  \<open>1.00\<close>, the real gives \<open>1.01\<close>). The theorems below only compare two
  roundings of equal values.
\<close>

definition toFixed2 :: "real \<Rightarrow> real" where
  "toFixed2 v =
     (if v < 0 then - (real_of_int \<lfloor>(- v) * 100 + 1 / 2\<rfloor> / 100)
      else real_of_int \<lfloor>v * 100 + 1 / 2\<rfloor> / 100)"

text \<open>
  The button \<^verbatim>\<open>Done\<close> is rendered only for a closed polygon; it passes the
  rounded area and perimeter to \<^verbatim>\<open>onComplete\<close>.
\<close>

definition completeMeasurement :: "session \<Rightarrow> (real \<times> real) option" where
  "completeMeasurement s =
     (if isClosed s
      then Some (toFixed2 (area (stats s)), toFixed2 (perimeter (stats s)))
      else None)"

subsection \<open>The geometry as the specification words it\<close>

text \<open>
  The effective polygon, the shoelace sum with indices modulo the length, the
  length of an open chain and of a cycle of edges, and the pixel perimeter that
  the specification describes.
\<close>

definition effectivePolygon :: "session \<Rightarrow> point list" where
  "effectivePolygon s =
     (if isClosed s then points s else points s @ [center (viewport s)])"

definition shoelaceSum :: "point list \<Rightarrow> real" where
  "shoelaceSum ps =
     (\<Sum>i<length ps. x (ps ! i) * y (ps ! ((i + 1) mod length ps))
                      - x (ps ! ((i + 1) mod length ps)) * y (ps ! i))"

fun chainLength :: "point list \<Rightarrow> real" where
  "chainLength (p # q # ps) = calculatePixelDistance p q + chainLength (q # ps)"
| "chainLength ps = 0"

definition cycleLength :: "point list \<Rightarrow> real" where
  "cycleLength ps =
     (if ps = [] then 0 else chainLength ps + calculatePixelDistance (last ps) (hd ps))"

definition specPerimeterPx :: "session \<Rightarrow> real" where
  "specPerimeterPx s =
     (if isClosed s then cycleLength (points s)
      else chainLength (points s)
           + (if points s \<noteq> []
              then calculatePixelDistance (last (points s)) (center (viewport s))
              else 0))"

section \<open>Room dimensions from a scan\<close>

text \<open>
  \<^verbatim>\<open>addRoom(customArea?, customPerimeter?)\<close> receives optional numbers and tests
  them by truthiness: \<^verbatim>\<open>undefined\<close> and \<open>0\<close> are both false. The manual
  entries are the results of \<^verbatim>\<open>parseFloat\<close>, with \<open>None\<close> for a text that is
  not a number; \<^verbatim>\<open>v || 0\<close> replaces that by \<open>0\<close>.
\<close>

definition truthy :: "real option \<Rightarrow> bool" where
  "truthy v = (case v of None \<Rightarrow> False | Some r \<Rightarrow> r \<noteq> 0)"

definition orZero :: "real option \<Rightarrow> real" where
  "orZero v = (case v of None \<Rightarrow> 0 | Some r \<Rightarrow> r)"

record dimensions =
  effectiveWidth :: real
  effectiveLength :: real

definition rectDiscriminant :: "real \<Rightarrow> real \<Rightarrow> real" where
  "rectDiscriminant customArea semiPerimeter = semiPerimeter\<^sup>2 - 4 * customArea"

definition addRoomDimensions ::
    "real option \<Rightarrow> real option \<Rightarrow> real option \<Rightarrow> real option \<Rightarrow> dimensions" where
  "addRoomDimensions customArea customPerimeter widthParsed lengthParsed =
     (if truthy customArea \<and> truthy customPerimeter then
        (let semiPerimeter = orZero customPerimeter / 2;
             discriminant = rectDiscriminant (orZero customArea) semiPerimeter
         in if discriminant \<ge> 0 then
              (let w1 = (semiPerimeter + sqrt discriminant) / 2;
                   w2 = (semiPerimeter - sqrt discriminant) / 2
               in \<lparr>effectiveWidth = min w1 w2, effectiveLength = max w1 w2\<rparr>)
            else \<lparr>effectiveWidth = sqrt (orZero customArea),
                  effectiveLength = sqrt (orZero customArea)\<rparr>)
      else if truthy customArea then
        \<lparr>effectiveWidth = sqrt (orZero customArea),
         effectiveLength = sqrt (orZero customArea)\<rparr>
      else \<lparr>effectiveWidth = orZero widthParsed, effectiveLength = orZero lengthParsed\<rparr>)"

text \<open>
  \<^verbatim>\<open>addRoom\<close> rejects a zero dimension with an alert and adds no room (\<open>None\<close>);
  otherwise the room stores both dimensions rounded to two decimals.
\<close>

definition addRoom ::
    "real option \<Rightarrow> real option \<Rightarrow> real option \<Rightarrow> real option \<Rightarrow> dimensions option" where
  "addRoom customArea customPerimeter widthParsed lengthParsed =
     (let d = addRoomDimensions customArea customPerimeter widthParsed lengthParsed
      in if effectiveWidth d = 0 \<or> effectiveLength d = 0 then None
         else Some \<lparr>effectiveWidth = toFixed2 (effectiveWidth d),
                    effectiveLength = toFixed2 (effectiveLength d)\<rparr>)"

section \<open>Stability detector\<close>

text \<open>
  The detector owns the progress value, the time of the last motion, the cooldown
  flag and the pending cooldown timer (the time at which the callback given to
  \<^verbatim>\<open>setTimeout\<close> is due; a new one is set only while the flag is off, and the
  flag stays on until the callback runs, so at most one is pending). The field
  \<open>captures\<close> counts the calls of \<^verbatim>\<open>handleCapturePoint\<close> made by the detector.
  Times are the integers of \<^verbatim>\<open>Date.now()\<close> and are passed to every handler.
\<close>

record detector =
  scanProgress :: int
  lastMotionRef :: int
  scanCooldownRef :: bool
  cooldownTimer :: "int option"
  captures :: nat




definition handleMouseMove :: "int \<Rightarrow> detector \<Rightarrow> detector" where
  "handleMouseMove now d = d\<lparr>lastMotionRef := now, scanProgress := 0\<rparr>"








section \<open>Sessions used as examples\<close>

text \<open>A triangle under construction and a container whose centre is near its first vertex.\<close>

definition triangleSession :: session where
  "triangleSession =
     initialSession\<lparr>points := [\<lparr>x = 0, y = 0\<rparr>, \<lparr>x = 100, y = 0\<rparr>, \<lparr>x = 100, y = 100\<rparr>]\<rparr>"

definition nearStartRect :: domRect where
  "nearStartRect = \<lparr>width = 20, height = 20\<rparr>"

text \<open>A second container, also near the first vertex of the triangle.\<close>

definition otherNearStartRect :: domRect where
  "otherNearStartRect = \<lparr>width = 0, height = 10\<rparr>"

text \<open>One captured vertex, with the reticle at \<open>(3, 4)\<close>.\<close>

definition oneVertexSession :: session where
  "oneVertexSession =
     initialSession\<lparr>points := [\<lparr>x = 0, y = 0\<rparr>], viewport := \<lparr>w = 6, h = 8\<rparr>\<rparr>"







text \<open>The triangle once closed, and the same under another viewport.\<close>

definition closedTriangle :: session where
  "closedTriangle = triangleSession\<lparr>isClosed := True\<rparr>"

definition closedTriangleMoved :: session where
  "closedTriangleMoved = closedTriangle\<lparr>viewport := \<lparr>w = 640, h = 480\<rparr>\<rparr>"

text \<open>
  Calibration entered, one reference point captured, calibration left again.
\<close>

definition abandonedCalibration :: session where
  "abandonedCalibration =
     toggleCalibration
       (handleCapturePoint (Some nearStartRect) (toggleCalibration initialSession))"

text \<open>A container whose centre \<open>(70, 90)\<close> is 100 pixels from \<open>(10, 10)\<close>.\<close>

definition farRect :: domRect where
  "farRect = \<lparr>width = 140, height = 180\<rparr>"


section \<open>Closing the polygon\<close>

lemma sqrt_less_numeral: "0 \<le> b \<Longrightarrow> a < b * b \<Longrightarrow> sqrt a < b"
  by (rule real_less_lsqrt) (simp_all add: power2_eq_square)

text \<open>
  C1. In the state Measuring-Open (neither calibrating nor closed) a capture at
  the target closes the polygon exactly when there are at least three vertices and
  the target is less than 30 pixels from the first one; then the vertices are
  unchanged. In every other case the target becomes the last vertex and the
  polygon stays open. Nothing else of the state changes.
\<close>

theorem capturePoint_closes_iff_near_start:
  assumes "\<not> isCalibrating s" and "\<not> isClosed s"
    and "target = \<lparr>x = width r / 2, y = height r / 2\<rparr>"
    and "s' = handleCapturePoint (Some r) s"
  shows "(if length (points s) \<ge> 3 \<and> calculatePixelDistance target (points s ! 0) < 30
          then isClosed s' \<and> points s' = points s \<and> s' = s\<lparr>isClosed := True\<rparr>
          else \<not> isClosed s' \<and> points s' = points s @ [target]
               \<and> s' = s\<lparr>points := points s @ [target]\<rparr>)
         \<and> \<not> isCalibrating s'"
  using assms
  by (simp add: handleCapturePoint_def calculatePixelDistance_def Let_def power2_eq_square)

theorem capturePoint_closes_iff_near_start_witness:
  "\<not> isCalibrating triangleSession \<and> \<not> isClosed triangleSession
   \<and> isClosed (handleCapturePoint (Some nearStartRect) triangleSession)
   \<and> length (points (handleCapturePoint (Some nearStartRect) triangleSession)) = 3"
proof -
  have a: "\<not> isCalibrating triangleSession" and b: "\<not> isClosed triangleSession"
    by (simp_all add: triangleSession_def initialSession_def)
  have near: "3 \<le> length (points triangleSession) \<and>
      calculatePixelDistance \<lparr>x = width nearStartRect / 2, y = height nearStartRect / 2\<rparr>
        (points triangleSession ! 0) < 30"
    by (simp add: triangleSession_def initialSession_def nearStartRect_def
        calculatePixelDistance_def sqrt_less_numeral)
  from capturePoint_closes_iff_near_start [OF a b refl refl, of nearStartRect] near a b
  show ?thesis by (simp add: triangleSession_def initialSession_def)
qed

section \<open>Undo\<close>

text \<open>
  C9. Undo on a closed polygon reopens it and keeps every vertex; undo on an open
  polygon with vertices removes exactly the last one; undo on an open polygon
  without vertices changes nothing. Closing, undoing and closing again, each time
  with the reticle less than 30 pixels from the first vertex, gives the same
  vertices, area and perimeter as the first closing.
\<close>

theorem undo_cases_and_round_trip:
  "(isClosed s \<longrightarrow> \<not> isClosed (handleUndo s) \<and> points (handleUndo s) = points s)
   \<and> (\<not> isClosed s \<and> points s \<noteq> [] \<longrightarrow>
        points (handleUndo s) = butlast (points s) \<and> \<not> isClosed (handleUndo s))
   \<and> (\<not> isClosed s \<and> points s = [] \<longrightarrow> handleUndo s = s)
   \<and> (\<not> isCalibrating s \<and> \<not> isClosed s \<and> length (points s) \<ge> 3
        \<and> calculatePixelDistance \<lparr>x = width r1 / 2, y = height r1 / 2\<rparr> (points s ! 0) < 30
        \<and> calculatePixelDistance \<lparr>x = width r2 / 2, y = height r2 / 2\<rparr> (points s ! 0) < 30
      \<longrightarrow> (let s1 = handleCapturePoint (Some r1) s;
               s3 = handleCapturePoint (Some r2) (handleUndo s1)
           in isClosed s1 \<and> \<not> isClosed (handleUndo s1) \<and> isClosed s3
              \<and> points s3 = points s1
              \<and> area (stats s3) = area (stats s1)
              \<and> perimeter (stats s3) = perimeter (stats s1)
              \<and> completeMeasurement s3 = completeMeasurement s1))"
  by (simp add: handleUndo_def handleCapturePoint_def Let_def butlast_conv_take
      calculatePixelDistance_def power2_eq_square stats_def completeMeasurement_def)

theorem undo_cases_and_round_trip_witness:
  "isClosed closedTriangle
   \<and> \<not> isClosed (handleUndo closedTriangle)
   \<and> points (handleUndo closedTriangle) = points closedTriangle
   \<and> \<not> isClosed triangleSession \<and> points triangleSession \<noteq> []
   \<and> points (handleUndo triangleSession) = [\<lparr>x = 0, y = 0\<rparr>, \<lparr>x = 100, y = 0\<rparr>]
   \<and> \<not> isClosed initialSession \<and> points initialSession = []
   \<and> handleUndo initialSession = initialSession
   \<and> \<not> isCalibrating triangleSession \<and> 3 \<le> length (points triangleSession)
   \<and> calculatePixelDistance \<lparr>x = width nearStartRect / 2, y = height nearStartRect / 2\<rparr>
        (points triangleSession ! 0) < 30
   \<and> calculatePixelDistance
        \<lparr>x = width otherNearStartRect / 2, y = height otherNearStartRect / 2\<rparr>
        (points triangleSession ! 0) < 30
   \<and> stats (handleCapturePoint (Some otherNearStartRect)
              (handleUndo (handleCapturePoint (Some nearStartRect) triangleSession)))
       = stats (handleCapturePoint (Some nearStartRect) triangleSession)"
proof -
  have c: "isClosed closedTriangle"
    by (simp add: closedTriangle_def)
  have o: "\<not> isClosed triangleSession" "points triangleSession \<noteq> []"
      "\<not> isCalibrating triangleSession" "3 \<le> length (points triangleSession)"
    by (simp_all add: triangleSession_def initialSession_def)
  have e: "\<not> isClosed initialSession" "points initialSession = []"
    by (simp_all add: initialSession_def)
  have n1: "calculatePixelDistance
        \<lparr>x = width nearStartRect / 2, y = height nearStartRect / 2\<rparr>
        (points triangleSession ! 0) < 30"
    by (simp add: triangleSession_def initialSession_def nearStartRect_def
        calculatePixelDistance_def sqrt_less_numeral)
  have n2: "calculatePixelDistance
        \<lparr>x = width otherNearStartRect / 2, y = height otherNearStartRect / 2\<rparr>
        (points triangleSession ! 0) < 30"
    by (simp add: triangleSession_def initialSession_def otherNearStartRect_def
        calculatePixelDistance_def sqrt_less_numeral)
  from undo_cases_and_round_trip [of closedTriangle] c
  have a1: "\<not> isClosed (handleUndo closedTriangle)
      \<and> points (handleUndo closedTriangle) = points closedTriangle" by blast
  from undo_cases_and_round_trip [of triangleSession] o
  have "points (handleUndo triangleSession) = butlast (points triangleSession)" by blast
  then have a2: "points (handleUndo triangleSession) = [\<lparr>x = 0, y = 0\<rparr>, \<lparr>x = 100, y = 0\<rparr>]"
    by (simp add: triangleSession_def initialSession_def)
  from undo_cases_and_round_trip [of initialSession] e
  have a3: "handleUndo initialSession = initialSession" by blast
  from undo_cases_and_round_trip [of triangleSession nearStartRect otherNearStartRect] o n1 n2
  have "area (stats (handleCapturePoint (Some otherNearStartRect)
              (handleUndo (handleCapturePoint (Some nearStartRect) triangleSession))))
       = area (stats (handleCapturePoint (Some nearStartRect) triangleSession))
     \<and> perimeter (stats (handleCapturePoint (Some otherNearStartRect)
              (handleUndo (handleCapturePoint (Some nearStartRect) triangleSession))))
       = perimeter (stats (handleCapturePoint (Some nearStartRect) triangleSession))"
    by (simp add: Let_def)
  then have a4: "stats (handleCapturePoint (Some otherNearStartRect)
              (handleUndo (handleCapturePoint (Some nearStartRect) triangleSession)))
       = stats (handleCapturePoint (Some nearStartRect) triangleSession)"
    by simp
  from c o e n1 n2 a1 a2 a3 a4 show ?thesis by blast
qed

section \<open>Calibration\<close>

lemma sqrt_10000: "sqrt 10000 = 100"
  by (rule real_sqrt_unique) simp_all










text \<open>
  C7. Entering calibration should start with no reference points; the hint on
  the screen asks for two taps and the dialog speaks of the two points just
  tapped. The button \<^verbatim>\<open>Scale\<close> only flips the flag: after calibration was
  entered, one point captured and calibration left, entering it again finds that
  point still there, a single tap opens the dialog, and the scale is computed
  from the abandoned point.
\<close>

theorem toggleCalibration_keeps_stale_reference_point:
  "\<not> isCalibrating abandonedCalibration
   \<and> isCalibrating (toggleCalibration abandonedCalibration)
   \<and> calibrationPoints (toggleCalibration abandonedCalibration) = [\<lparr>x = 10, y = 10\<rparr>]
   \<and> calibrationPoints (toggleCalibration abandonedCalibration) \<noteq> []
   \<and> showCalibrationModal
       (handleCapturePoint (Some farRect) (toggleCalibration abandonedCalibration))
   \<and> calibrationPoints
       (handleCapturePoint (Some farRect) (toggleCalibration abandonedCalibration))
       = [\<lparr>x = 10, y = 10\<rparr>, \<lparr>x = 70, y = 90\<rparr>]
   \<and> finishCalibration 10
       (handleCapturePoint (Some farRect) (toggleCalibration abandonedCalibration))
       = Inr (initialSession\<lparr>pixelsPerFoot := 10\<rparr>)"
  by (simp add: abandonedCalibration_def toggleCalibration_def handleCapturePoint_def
      initialSession_def nearStartRect_def farRect_def finishCalibration_def
      handleFinishCalibration_def jsIndex_def calculatePixelDistanceJs_def
      calculatePixelDistance_def sqrt_10000)

section \<open>Area and perimeter\<close>

lemma fold_add_sum:
  "fold (\<lambda>i (acc::real). acc + f i) [0..<n] a = a + (\<Sum>i<n. f i)"
  by (induction n arbitrary: a) (simp_all add: algebra_simps)

lemma shoelaceLoop_eq_sum: "shoelaceLoop ps = shoelaceSum ps"
proof -
  have "shoelaceLoop ps =
      fold (\<lambda>i acc. acc + (x (ps ! i) * y (ps ! ((i + 1) mod length ps))
                          - x (ps ! ((i + 1) mod length ps)) * y (ps ! i))) [0..<length ps] 0"
    by (simp add: shoelaceLoop_def Let_def algebra_simps)
  then show ?thesis
    by (simp only: fold_add_sum shoelaceSum_def add_0)
qed

lemma shoelaceSum_short: "length ps < 3 \<Longrightarrow> shoelaceSum ps = 0"
proof -
  assume "length ps < 3"
  then consider "length ps = 0" | "length ps = 1" | "length ps = 2" by linarith
  then show ?thesis
  proof cases
    case 1 then show ?thesis by (simp add: shoelaceSum_def)
  next
    case 2 then show ?thesis by (simp add: shoelaceSum_def)
  next
    case 3 then show ?thesis by (simp add: shoelaceSum_def lessThan_Suc numeral_2_eq_2)
  qed
qed

lemma shoelaceSum_triangle:
  "shoelaceSum [a, b, c]
     = (x a * y b - x b * y a) + (x b * y c - x c * y b) + (x c * y a - x a * y c)"
  by (simp add: shoelaceSum_def mod_Suc)

text \<open>
  C2. The area that \<^verbatim>\<open>stats\<close> returns is the absolute shoelace sum over the
  effective polygon (the vertices when closed, the vertices followed by the
  reticle when open), halved, and converted with the square of the scale; it is
  zero whenever the effective polygon has fewer than three points.
\<close>

theorem stats_area_is_shoelace:
  "area (stats s)
     = (abs (shoelaceSum (effectivePolygon s)) / 2) / (pixelsPerFoot s * pixelsPerFoot s)
   \<and> (length (effectivePolygon s) < 3 \<longrightarrow> area (stats s) = 0)"
proof -
  have main: "area (stats s)
     = (abs (shoelaceSum (effectivePolygon s)) / 2) / (pixelsPerFoot s * pixelsPerFoot s)"
  proof (cases "length (effectivePolygon s) < 3")
    case True
    then have "area (stats s) = 0"
      by (auto simp: stats_def effectivePolygon_def Let_def split: if_splits)
    with True show ?thesis by (simp add: shoelaceSum_short)
  next
    case False
    then have "\<not> length (points s) < 2"
      by (auto simp: effectivePolygon_def split: if_splits)
    with False show ?thesis
      by (simp add: stats_def effectivePolygon_def Let_def shoelaceLoop_eq_sum)
  qed
  moreover have "length (effectivePolygon s) < 3 \<longrightarrow> area (stats s) = 0"
    using main by (simp add: shoelaceSum_short)
  ultimately show ?thesis by simp
qed

theorem stats_area_is_shoelace_witness:
  "length (effectivePolygon oneVertexSession) < 3 \<and> area (stats oneVertexSession) = 0
   \<and> \<not> length (effectivePolygon closedTriangle) < 3
   \<and> area (stats closedTriangle) = 5000 / (35 * 35)"
proof -
  have short: "length (effectivePolygon oneVertexSession) < 3"
    by (simp add: effectivePolygon_def oneVertexSession_def initialSession_def)
  with stats_area_is_shoelace [of oneVertexSession]
  have zero: "area (stats oneVertexSession) = 0" by blast
  have long: "\<not> length (effectivePolygon closedTriangle) < 3"
    by (simp add: effectivePolygon_def closedTriangle_def triangleSession_def
        initialSession_def)
  have "shoelaceSum (effectivePolygon closedTriangle) = 10000"
    by (simp add: effectivePolygon_def closedTriangle_def triangleSession_def
        initialSession_def shoelaceSum_triangle)
  moreover have "pixelsPerFoot closedTriangle = 35"
    by (simp add: closedTriangle_def triangleSession_def initialSession_def)
  ultimately have tri: "area (stats closedTriangle) = 5000 / (35 * 35)"
    using stats_area_is_shoelace [of closedTriangle] by simp
  from short zero long tri show ?thesis by blast
qed

lemma perimeterLoop_chain:
  "n < length ps \<Longrightarrow> perimeterLoop ps n = chainLength (take (Suc n) ps)"
proof (induction n)
  case 0
  then show ?case by (cases ps) (simp_all add: perimeterLoop_def)
next
  case (Suc n)
  then have n: "n < length ps" and sn: "Suc n < length ps" by simp_all
  have step: "perimeterLoop ps (Suc n)
      = perimeterLoop ps n + calculatePixelDistance (ps ! n) (ps ! Suc n)"
    using sn by (simp add: perimeterLoop_def)
  have chain_snoc: "\<And>qs a b. chainLength (qs @ [a, b]) = chainLength (qs @ [a]) + calculatePixelDistance a b"
  proof -
    fix qs :: "point list" and a b
    show "chainLength (qs @ [a, b]) = chainLength (qs @ [a]) + calculatePixelDistance a b"
      by (induction qs rule: chainLength.induct) simp_all
  qed
  have "take (Suc (Suc n)) ps = take n ps @ [ps ! n, ps ! Suc n]"
    using sn by (simp add: take_Suc_conv_app_nth)
  moreover have "take (Suc n) ps = take n ps @ [ps ! n]"
    using n by (simp add: take_Suc_conv_app_nth)
  ultimately show ?case using Suc.IH [OF n] step chain_snoc by simp
qed

lemma perimeterLoop_Suc:
  "perimeterLoop ps (Suc n)
     = perimeterLoop ps n + calculatePixelDistance (ps ! n) (ps ! (Suc n mod length ps))"
  by (simp add: perimeterLoop_def)

lemma perimeterLoop_open:
  assumes "ps \<noteq> []"
  shows "perimeterLoop ps (length ps - 1) = chainLength ps"
proof -
  from assms have "length ps - 1 < length ps" by (cases ps) simp_all
  from perimeterLoop_chain [OF this] assms show ?thesis by simp
qed

lemma perimeterLoop_closed:
  assumes "ps \<noteq> []"
  shows "perimeterLoop ps (length ps) = cycleLength ps"
proof -
  from assms obtain n where n: "length ps = Suc n" by (cases ps) auto
  have "perimeterLoop ps (Suc n)
      = perimeterLoop ps n + calculatePixelDistance (ps ! n) (ps ! (Suc n mod length ps))"
    by (rule perimeterLoop_Suc)
  also have "perimeterLoop ps n = chainLength ps"
    using perimeterLoop_open [OF assms] n by simp
  also have "ps ! n = last ps" using assms n by (simp add: last_conv_nth)
  also have "ps ! (Suc n mod length ps) = hd ps" using assms n by (simp add: hd_conv_nth)
  finally show ?thesis using assms n by (simp add: cycleLength_def)
qed
lemma sqrt_25: "sqrt 25 = 5"
  by (rule real_sqrt_unique) simp_all

text \<open>
  The claim C3 as stated fails: with a single vertex and an open polygon the
  specification asks for the distance from that vertex to the reticle, and
  \<^verbatim>\<open>stats\<close> returns zero.
\<close>

theorem stats_perimeter_one_vertex_counterexample:
  "\<not> isClosed oneVertexSession \<and> length (points oneVertexSession) = 1
   \<and> specPerimeterPx oneVertexSession
       = calculatePixelDistance (points oneVertexSession ! 0) (center (viewport oneVertexSession))
   \<and> specPerimeterPx oneVertexSession = 5
   \<and> perimeter (stats oneVertexSession) = 0
   \<and> perimeter (stats oneVertexSession)
       \<noteq> specPerimeterPx oneVertexSession / pixelsPerFoot oneVertexSession"
  by (simp add: oneVertexSession_def initialSession_def specPerimeterPx_def stats_def
      center_def calculatePixelDistance_def sqrt_25)

text \<open>
  C3, amended. The perimeter that \<^verbatim>\<open>stats\<close> returns is zero for an open polygon
  with exactly one vertex. In every other case it is, converted with the scale,
  the cyclic sum of the edge lengths when closed and, when open, the sum over the
  open chain plus the live edge from the last vertex to the reticle if there is
  a vertex.
\<close>

theorem stats_perimeter_amended:
  "perimeter (stats s)
     = (if \<not> isClosed s \<and> length (points s) = 1 then 0 else specPerimeterPx s)
       / pixelsPerFoot s"
proof (cases "length (points s) < 2")
  case True
  then consider "points s = []" | p where "points s = [p]"
    by (cases "points s" rule: chainLength.cases) simp_all
  then show ?thesis
  proof cases
    case 1
    then show ?thesis by (simp add: stats_def specPerimeterPx_def cycleLength_def)
  next
    case 2
    then show ?thesis
      by (simp add: stats_def specPerimeterPx_def cycleLength_def calculatePixelDistance_def)
  qed
next
  case False
  then have ne: "points s \<noteq> []" by auto
  show ?thesis
  proof (cases "isClosed s")
    case True
    with False ne show ?thesis
      by (simp add: stats_def Let_def specPerimeterPx_def perimeterLoop_closed)
  next
    case False
    with \<open>\<not> length (points s) < 2\<close> ne perimeterLoop_open [OF ne] show ?thesis
      by (simp add: stats_def Let_def specPerimeterPx_def last_conv_nth)
  qed
qed

theorem stats_perimeter_amended_witness:
  "\<not> (\<not> isClosed closedTriangle \<and> length (points closedTriangle) = 1)
   \<and> perimeter (stats closedTriangle) = specPerimeterPx closedTriangle / 35"
  using stats_perimeter_amended [of closedTriangle]
  by (simp add: closedTriangle_def triangleSession_def initialSession_def)

text \<open>
  C10. For a closed polygon the result of \<^verbatim>\<open>stats\<close>, and with it the rounded pair
  passed to \<^verbatim>\<open>onComplete\<close>, depends only on the vertices and the scale: two closed
  states with the same vertices and scale give the same result, whatever their
  viewports (and so their reticles) are.
\<close>

theorem closed_stats_independent_of_center:
  assumes "isClosed s" and "isClosed t"
    and "points s = points t" and "pixelsPerFoot s = pixelsPerFoot t"
  shows "stats s = stats t \<and> completeMeasurement s = completeMeasurement t"
  using assms by (simp add: stats_def completeMeasurement_def)

theorem closed_stats_independent_of_center_witness:
  "isClosed closedTriangle \<and> isClosed closedTriangleMoved
   \<and> points closedTriangle = points closedTriangleMoved
   \<and> pixelsPerFoot closedTriangle = pixelsPerFoot closedTriangleMoved
   \<and> center (viewport closedTriangle) \<noteq> center (viewport closedTriangleMoved)
   \<and> stats closedTriangle = stats closedTriangleMoved
   \<and> completeMeasurement closedTriangle = completeMeasurement closedTriangleMoved"
proof -
  have h: "isClosed closedTriangle" "isClosed closedTriangleMoved"
      "points closedTriangle = points closedTriangleMoved"
      "pixelsPerFoot closedTriangle = pixelsPerFoot closedTriangleMoved"
    by (simp_all add: closedTriangleMoved_def closedTriangle_def)
  have moved: "center (viewport closedTriangle) \<noteq> center (viewport closedTriangleMoved)"
    by (simp add: closedTriangleMoved_def closedTriangle_def triangleSession_def
        initialSession_def center_def)
  from closed_stats_independent_of_center [OF h] h moved show ?thesis by blast
qed

section \<open>Rectangle dimensions\<close>

text \<open>
  The claim C5 as stated fails for the area zero: zero is false in the test that
  guards the computation, and the manually entered dimensions are used.
\<close>

theorem backSolve_zero_area_counterexample:
  "(0::real) \<le> 0 \<and> (0::real) \<le> 40
   \<and> rectDiscriminant 0 (40 / 2) \<ge> 0
   \<and> (40 / 2 + sqrt (rectDiscriminant 0 (40 / 2))) / 2 = 20
   \<and> effectiveLength (addRoomDimensions (Some 0) (Some 40) None None) = 0
   \<and> effectiveLength (addRoomDimensions (Some 0) (Some 40) None None)
       \<noteq> (40 / 2 + sqrt (rectDiscriminant 0 (40 / 2))) / 2"
  by (simp add: addRoomDimensions_def truthy_def orZero_def rectDiscriminant_def)

lemma sqrt_discriminant_less:
  assumes "0 < a" and "0 \<le> s" and "0 \<le> rectDiscriminant a s"
  shows "sqrt (rectDiscriminant a s) < s"
proof -
  have "rectDiscriminant a s < s\<^sup>2" using assms(1) by (simp add: rectDiscriminant_def)
  with assms(2) show ?thesis by (rule_tac real_less_lsqrt) simp_all
qed

text \<open>
  C5, amended. For every positive area and non-negative perimeter, with the
  semi-perimeter \<open>s\<close> and the discriminant \<open>D = s\<^sup>2 - 4 \<sqdot> area\<close>: if
  \<open>D \<ge> 0\<close> the length is \<open>(s + \<surd>D) / 2\<close> and the width \<open>(s - \<surd>D) / 2\<close>, the
  smaller of the two; if \<open>D < 0\<close> both are the square root of the area; in both
  cases the room is added, not rejected. For the area zero the computation is
  skipped and the manually entered width and length are taken.
\<close>

theorem backSolve_amended:
  assumes "0 < a" and "0 \<le> p"
    and "d = addRoomDimensions (Some a) (Some p) widthParsed lengthParsed"
  shows "(rectDiscriminant a (p / 2) \<ge> 0 \<longrightarrow>
            effectiveLength d = (p / 2 + sqrt (rectDiscriminant a (p / 2))) / 2
          \<and> effectiveWidth d = (p / 2 - sqrt (rectDiscriminant a (p / 2))) / 2
          \<and> effectiveWidth d \<le> effectiveLength d)
       \<and> (rectDiscriminant a (p / 2) < 0 \<longrightarrow>
            effectiveLength d = sqrt a \<and> effectiveWidth d = sqrt a)
       \<and> addRoom (Some a) (Some p) widthParsed lengthParsed \<noteq> None
       \<and> addRoomDimensions (Some 0) (Some p) widthParsed lengthParsed
           = \<lparr>effectiveWidth = orZero widthParsed, effectiveLength = orZero lengthParsed\<rparr>"
proof -
  have manual: "addRoomDimensions (Some 0) (Some p) widthParsed lengthParsed
      = \<lparr>effectiveWidth = orZero widthParsed, effectiveLength = orZero lengthParsed\<rparr>"
    by (simp add: addRoomDimensions_def truthy_def)
  have root: "0 < sqrt a" using assms(1) by simp
  show ?thesis
  proof (cases "rectDiscriminant a (p / 2) \<ge> 0")
    case True
    define r where "r = sqrt (rectDiscriminant a (p / 2))"
    have r0: "0 \<le> r" using True by (simp add: r_def)
    have rs: "r < p / 2"
      unfolding r_def using assms(2) True by (intro sqrt_discriminant_less [OF assms(1)]) simp_all
    then have p: "p \<noteq> 0" using r0 by auto
    have dims: "d = \<lparr>effectiveWidth = min ((p / 2 + r) / 2) ((p / 2 - r) / 2),
                     effectiveLength = max ((p / 2 + r) / 2) ((p / 2 - r) / 2)\<rparr>"
      using assms True p
      by (simp add: addRoomDimensions_def truthy_def orZero_def Let_def r_def)
    have mn: "min ((p / 2 + r) / 2) ((p / 2 - r) / 2) = (p / 2 - r) / 2"
      and mx: "max ((p / 2 + r) / 2) ((p / 2 - r) / 2) = (p / 2 + r) / 2"
      using r0 by (simp_all add: min_def max_def)
    have wd: "effectiveWidth d = (p / 2 - r) / 2" and ln: "effectiveLength d = (p / 2 + r) / 2"
      by (simp_all add: dims mn mx)
    have "0 < effectiveWidth d" and "0 < effectiveLength d"
      using r0 rs by (simp_all add: wd ln)
    then have "addRoom (Some a) (Some p) widthParsed lengthParsed \<noteq> None"
      using assms(3) by (simp add: addRoom_def Let_def)
    moreover have "effectiveWidth d \<le> effectiveLength d" using r0 by (simp add: wd ln)
    moreover have "\<not> rectDiscriminant a (p / 2) < 0" using True by simp
    ultimately show ?thesis using manual wd ln unfolding r_def by blast
  next
    case False
    have dims: "d = \<lparr>effectiveWidth = sqrt a, effectiveLength = sqrt a\<rparr>"
      using assms(1,3) False
      by (simp add: addRoomDimensions_def truthy_def orZero_def Let_def)
    then have "addRoom (Some a) (Some p) widthParsed lengthParsed \<noteq> None"
      using assms(3) root by (simp add: addRoom_def Let_def)
    moreover have "effectiveLength d = sqrt a" and "effectiveWidth d = sqrt a"
      by (simp_all add: dims)
    ultimately show ?thesis using False manual by blast
  qed
qed

theorem backSolve_amended_witness:
  "(0::real) < 100 \<and> (0::real) \<le> 40 \<and> rectDiscriminant 100 (40 / 2) \<ge> 0
   \<and> effectiveLength (addRoomDimensions (Some 100) (Some 40) None None) = 10
   \<and> effectiveWidth (addRoomDimensions (Some 100) (Some 40) None None) = 10
   \<and> (0::real) < 50 \<and> (0::real) \<le> 20 \<and> rectDiscriminant 50 (20 / 2) < 0
   \<and> effectiveLength (addRoomDimensions (Some 50) (Some 20) None None) = sqrt 50
   \<and> effectiveWidth (addRoomDimensions (Some 50) (Some 20) None None) = sqrt 50"
proof -
  have d1: "rectDiscriminant 100 (40 / 2) = 0" and d2: "rectDiscriminant 50 (20 / 2) = - 100"
    by (simp_all add: rectDiscriminant_def)
  from backSolve_amended [of 100 40, OF _ _ refl, of None None] d1
  have a: "effectiveLength (addRoomDimensions (Some 100) (Some 40) None None) = 10
      \<and> effectiveWidth (addRoomDimensions (Some 100) (Some 40) None None) = 10" by simp
  from backSolve_amended [of 50 20, OF _ _ refl, of None None] d2
  have b: "effectiveLength (addRoomDimensions (Some 50) (Some 20) None None) = sqrt 50
      \<and> effectiveWidth (addRoomDimensions (Some 50) (Some 20) None None) = sqrt 50" by simp
  from a b d1 d2 show ?thesis by simp
qed

lemma sqrt_50_less_15: "sqrt 50 < 15"
  by (rule sqrt_less_numeral) simp_all

text \<open>
  The claim C6 as stated fails at its second input: for the area 50 and the
  perimeter 60 the discriminant is 700, not negative, and the sides are not
  \<open>\<surd>50\<close>.
\<close>

theorem backSolve_examples_counterexample:
  "rectDiscriminant 50 (60 / 2) = 700
   \<and> \<not> rectDiscriminant 50 (60 / 2) < 0
   \<and> effectiveLength (addRoomDimensions (Some 50) (Some 60) None None) \<noteq> sqrt 50"
proof -
  have d: "rectDiscriminant 50 (60 / 2) = 700" by (simp add: rectDiscriminant_def)
  have "effectiveLength (addRoomDimensions (Some 50) (Some 60) None None) = (30 + sqrt 700) / 2"
    by (simp add: addRoomDimensions_def truthy_def orZero_def rectDiscriminant_def Let_def max_def)
  moreover have "(30 + sqrt 700) / 2 \<ge> 15" by simp
  ultimately have "effectiveLength (addRoomDimensions (Some 50) (Some 60) None None) \<ge> 15"
    by (simp only:)
  then have "effectiveLength (addRoomDimensions (Some 50) (Some 60) None None) \<noteq> sqrt 50"
    using sqrt_50_less_15 by linarith
  moreover have "\<not> rectDiscriminant 50 (60 / 2) < 0" by (simp add: rectDiscriminant_def)
  ultimately show ?thesis using d by blast
qed

text \<open>
  C6, amended. The area 100 and the perimeter 40 give the discriminant 0 and the
  sides 10 and 10. The area 50 and the perimeter 60 give the discriminant 700
  and the sides \<open>(30 - \<surd>700) / 2\<close> and \<open>(30 + \<surd>700) / 2\<close>, whose product
  is 50.
\<close>

theorem backSolve_examples_amended:
  "rectDiscriminant 100 (40 / 2) = 0
   \<and> addRoomDimensions (Some 100) (Some 40) widthParsed lengthParsed
       = \<lparr>effectiveWidth = 10, effectiveLength = 10\<rparr>
   \<and> rectDiscriminant 50 (60 / 2) = 700
   \<and> addRoomDimensions (Some 50) (Some 60) widthParsed lengthParsed
       = \<lparr>effectiveWidth = (30 - sqrt 700) / 2, effectiveLength = (30 + sqrt 700) / 2\<rparr>
   \<and> effectiveWidth (addRoomDimensions (Some 50) (Some 60) widthParsed lengthParsed)
       * effectiveLength (addRoomDimensions (Some 50) (Some 60) widthParsed lengthParsed) = 50"
proof -
  have d1: "rectDiscriminant 100 (40 / 2) = 0" and d2: "rectDiscriminant 50 (60 / 2) = 700"
    by (simp_all add: rectDiscriminant_def)
  have a: "addRoomDimensions (Some 100) (Some 40) widthParsed lengthParsed
       = \<lparr>effectiveWidth = 10, effectiveLength = 10\<rparr>"
    by (simp add: addRoomDimensions_def truthy_def orZero_def rectDiscriminant_def Let_def)
  have b: "addRoomDimensions (Some 50) (Some 60) widthParsed lengthParsed
       = \<lparr>effectiveWidth = (30 - sqrt 700) / 2, effectiveLength = (30 + sqrt 700) / 2\<rparr>"
    by (simp add: addRoomDimensions_def truthy_def orZero_def rectDiscriminant_def Let_def
        min_def max_def)
  have "(30 - sqrt 700) * (30 + sqrt 700) = 200"
    by (simp add: algebra_simps)
  then have c: "(30 - sqrt 700) / 2 * ((30 + sqrt 700) / 2) = 50" by simp
  from d1 d2 a b c show ?thesis by simp
qed

section \<open>Timeline of the stability detector\<close>














end
